theory Spec2Isabelle
  imports Complex_Main
begin

section \<open>Errors raised by the Python code\<close>

text \<open>
  Every \<^verbatim>\<open>raise\<close> of the two modules, and every exception the Python run time raises
  on the paths they take (indexing an empty list, \<^verbatim>\<open>math.sqrt\<close> of a negative number,
  \<^verbatim>\<open>max\<close> of an empty list, a missing dictionary key), is a value of this type.
\<close>

datatype error =
    RuntimeError string
  | IndexError string
  | ValueError string
  | TypeError string
  | KeyError

section \<open>afem/geometry/distance.py: the extrema classes\<close>

text \<open>
  The OCCT solver object (\<^verbatim>\<open>Extrema_ExtPC\<close>, \<^verbatim>\<open>Extrema_ExtPS\<close>, \<^verbatim>\<open>Extrema_ExtCC\<close>,
  \<^verbatim>\<open>Extrema_ExtCS\<close>, \<^verbatim>\<open>Extrema_ExtSS\<close>) is an external collaborator: it is taken as
  a value holding what its methods answer. Solutions are indexed from 1. Python floats
  are modelled as reals.  For the two point solvers \<open>Ext1 i\<close> is the parameter
  (\<^verbatim>\<open>tool.Point(i).Parameter()\<close>) and \<open>Ext2 i\<close> the point
  (\<^verbatim>\<open>CheckGeom.to_point(tool.Point(i).Value())\<close>); for the other three they are the
  two points of \<^verbatim>\<open>tool.Points(i)\<close>.  The point solvers have no \<^verbatim>\<open>IsParallel\<close>; their
  classes never read the field.
\<close>

record ('a, 'b) extrema_tool =
  IsDone :: bool
  NbExt :: int
  SquareDistance :: "int \<Rightarrow> real"
  Ext1 :: "int \<Rightarrow> 'a"
  Ext2 :: "int \<Rightarrow> 'b"
  IsParallel :: bool

text \<open>
  The attributes an extrema object holds after \<^verbatim>\<open>__init__\<close>: \<open>rows1\<close> is \<^verbatim>\<open>_prms\<close>
  and \<open>rows2\<close> is \<^verbatim>\<open>_pnts\<close> for the point classes; they are \<^verbatim>\<open>_pnts1\<close> and \<^verbatim>\<open>_pnts2\<close>
  for the other three, which also set \<^verbatim>\<open>_parallel\<close>.
\<close>

record ('a, 'b) extrema_report =
  nsol :: int
  is_parallel :: "bool option"
  dmin :: real
  dmax :: real
  distances :: "real list"
  rows1 :: "'a list"
  rows2 :: "'b list"

text \<open>
  The loop \<^verbatim>\<open>for i in range(1, self._nsol + 1)\<close>: \<^verbatim>\<open>math.sqrt\<close> raises \<^verbatim>\<open>ValueError\<close> on a
  negative argument, which ends the call.
\<close>

fun collect_results ::
  "('a, 'b) extrema_tool \<Rightarrow> int list \<Rightarrow> (real \<times> 'a \<times> 'b) list \<Rightarrow> error + (real \<times> 'a \<times> 'b) list"
where
  "collect_results tool [] results = Inr results"
| "collect_results tool (i # is) results =
     (if SquareDistance tool i < 0 then Inl (ValueError ''math domain error'')
      else collect_results tool is
             (results @ [(sqrt (SquareDistance tool i), Ext1 tool i, Ext2 tool i)]))"

text \<open>
  Everything after the \<^verbatim>\<open>IsDone\<close> test, shared by the five constructors:
  \<^verbatim>\<open>results.sort(key=lambda tup: tup[0])\<close> is a stable sort, as \<^const>\<open>sort_key\<close> is;
  \<^verbatim>\<open>results[0]\<close> raises \<^verbatim>\<open>IndexError\<close> on the empty list.
\<close>

definition build_report ::
  "bool option \<Rightarrow> ('a, 'b) extrema_tool \<Rightarrow> error + ('a, 'b) extrema_report"
where
  "build_report parallel tool =
     (case collect_results tool [1 .. NbExt tool] [] of
        Inl e \<Rightarrow> Inl e
      | Inr unsorted \<Rightarrow>
          (let results = sort_key fst unsorted in
           if results = [] then Inl (IndexError ''list index out of range'')
           else Inr \<lparr> nsol = NbExt tool,
                      is_parallel = parallel,
                      dmin = fst (hd results),
                      dmax = fst (last results),
                      distances = map fst results,
                      rows1 = map (\<lambda>row. fst (snd row)) results,
                      rows2 = map (\<lambda>row. snd (snd row)) results \<rparr>))"

definition DistancePointToCurve ::
  "('a, 'b) extrema_tool \<Rightarrow> error + ('a, 'b) extrema_report" where
  "DistancePointToCurve tool =
     (if \<not> IsDone tool then Inl (RuntimeError ''Extrema between point and curve failed.'')
      else build_report None tool)"

definition DistancePointToSurface ::
  "('a, 'b) extrema_tool \<Rightarrow> error + ('a, 'b) extrema_report" where
  "DistancePointToSurface tool =
     (if \<not> IsDone tool then Inl (RuntimeError ''Extrema between point and surface failed.'')
      else build_report None tool)"

definition DistanceCurveToCurve ::
  "('a, 'b) extrema_tool \<Rightarrow> error + ('a, 'b) extrema_report" where
  "DistanceCurveToCurve tool =
     (if \<not> IsDone tool then Inl (RuntimeError ''Extrema between two curves failed.'')
      else build_report (Some (IsParallel tool)) tool)"

definition DistanceCurveToSurface ::
  "('a, 'b) extrema_tool \<Rightarrow> error + ('a, 'b) extrema_report" where
  "DistanceCurveToSurface tool =
     (if \<not> IsDone tool then Inl (RuntimeError ''Extrema between curve and surface failed.'')
      else build_report (Some (IsParallel tool)) tool)"

definition DistanceSurfaceToSurface ::
  "('a, 'b) extrema_tool \<Rightarrow> error + ('a, 'b) extrema_report" where
  "DistanceSurfaceToSurface tool =
     (if \<not> IsDone tool then Inl (RuntimeError ''Extrema between curve and surface failed.'')
      else build_report (Some (IsParallel tool)) tool)"

text \<open>The five operand-pair kinds, and the constructor each one names.\<close>

datatype pair_kind = PointCurve | PointSurface | CurveCurve | CurveSurface | SurfaceSurface

fun extrema_call ::
  "pair_kind \<Rightarrow> ('a, 'b) extrema_tool \<Rightarrow> error + ('a, 'b) extrema_report" where
  "extrema_call PointCurve tool = DistancePointToCurve tool"
| "extrema_call PointSurface tool = DistancePointToSurface tool"
| "extrema_call CurveCurve tool = DistanceCurveToCurve tool"
| "extrema_call CurveSurface tool = DistanceCurveToSurface tool"
| "extrema_call SurfaceSurface tool = DistanceSurfaceToSurface tool"

section \<open>afem/structure/join.py: synchronising part shapes\<close>

subsection \<open>Objects, the kernel and the part model\<close>

text \<open>
  Parts, shapes, curves and assemblies are Python objects: each is modelled by its
  identity, a natural number, so that equality is identity of reference. A part's
  \<^verbatim>\<open>shape\<close> attribute is mutable; the store \<open>shape_of\<close> holds its current value.
\<close>

type_synonym part = nat
type_synonym shape = nat
type_synonym curve = nat
type_synonym assy = nat

text \<open>What a Boolean tool (\<^verbatim>\<open>FuseShapes\<close>, \<^verbatim>\<open>SplitShapes\<close>) answers after \<^verbatim>\<open>build()\<close>.\<close>

record bop =
  is_done :: bool
  result_shape :: shape

text \<open>What a \<^verbatim>\<open>SewShape\<close> tool answers after \<^verbatim>\<open>perform()\<close>.\<close>

record sew_tool =
  is_modified :: "shape \<Rightarrow> bool"
  modified :: "shape \<Rightarrow> shape"

text \<open>
  The topology layer (\<^verbatim>\<open>afem.topology\<close>) is imported by join.py and is not part of it:
  its tools are parameters. \<open>FuseShapes fuzzy_val args tools\<close> is the tool after
  \<^verbatim>\<open>set_args\<close>, \<^verbatim>\<open>set_tools\<close> and \<^verbatim>\<open>build\<close>; \<open>SplitShapes\<close> takes \<open>None\<close> for the
  tools when \<^verbatim>\<open>set_tools\<close> is not called; \<open>RebuildShapesByTool old_shapes bop\<close> is the
  \<^verbatim>\<open>new_shape\<close> method of the rebuild object; \<open>IntersectShapes e1 e2 fuzzy_val\<close> is the
  \<^verbatim>\<open>vertices\<close> list of the intersection; \<open>SewShape tol max_tol shapes\<close> is the sewing
  tool after every shape was added and \<^verbatim>\<open>perform\<close> was called; \<open>global_tolerance shape mode\<close>
  is \<^verbatim>\<open>ExploreShape.global_tolerance\<close>. Tolerances are reals.
\<close>

record kernel =
  global_tolerance :: "shape \<Rightarrow> nat \<Rightarrow> real"
  EdgeByCurve :: "curve \<Rightarrow> shape"
  IntersectShapes :: "shape \<Rightarrow> shape \<Rightarrow> real \<Rightarrow> shape list"
  FuseShapes :: "real option \<Rightarrow> shape list \<Rightarrow> shape list \<Rightarrow> bop"
  SplitShapes :: "real option \<Rightarrow> shape list \<Rightarrow> shape list option \<Rightarrow> bop"
  RebuildShapesByTool :: "shape list \<Rightarrow> bop \<Rightarrow> shape \<Rightarrow> shape"
  CompoundByShapes :: "shape list \<Rightarrow> shape"
  SewShape :: "real \<Rightarrow> real \<Rightarrow> shape list \<Rightarrow> sew_tool"
  to_shape :: "shape \<Rightarrow> shape"

text \<open>
  The part and assembly classes (\<^verbatim>\<open>afem.structure.entities\<close>, \<^verbatim>\<open>assembly\<close>) are
  imported too: \<open>SurfacePart p\<close> is \<^verbatim>\<open>isinstance(p, SurfacePart)\<close>; \<open>part_fuse\<close> and
  \<open>part_cut\<close> are the methods \<^verbatim>\<open>fuse\<close> and \<^verbatim>\<open>cut\<close> of a part, which act on the
  shape store, \<^verbatim>\<open>cut\<close> returning its status; \<open>get_parts assy include_subassy\<close>
  lists the parts of an assembly.
\<close>

record entities =
  SurfacePart :: "part \<Rightarrow> bool"
  has_cref :: "part \<Rightarrow> bool"
  cref :: "part \<Rightarrow> curve"
  part_fuse :: "part \<Rightarrow> part list \<Rightarrow> (part \<Rightarrow> shape) \<Rightarrow> (part \<Rightarrow> shape)"
  part_cut :: "part \<Rightarrow> shape \<Rightarrow> (part \<Rightarrow> shape) \<Rightarrow> bool \<times> (part \<Rightarrow> shape)"
  get_parts :: "assy \<Rightarrow> bool \<Rightarrow> part list"

text \<open>
  The operations that compute geometry or rewrite shapes are effects: each one that runs
  is appended to the trace of the world, with its arguments.
\<close>

datatype event =
    CallIntersectShapes shape shape real
  | CallPartFuse part "part list"
  | CallPartCut part shape
  | CallFuseShapes "real option" "shape list" "shape list"
  | CallSplitShapes "real option" "shape list" "shape list option"
  | CallRebuildShapesByTool "shape list"
  | CallSewShape real real "shape list"

record world =
  shape_of :: "part \<Rightarrow> shape"
  trace :: "event list"

definition emit :: "event \<Rightarrow> world \<Rightarrow> world" where
  "emit e w = w\<lparr>trace := trace w @ [e]\<rparr>"

definition set_shape :: "part \<Rightarrow> shape \<Rightarrow> world \<Rightarrow> world" where
  "set_shape p s w = w\<lparr>shape_of := (shape_of w)(p := s)\<rparr>"

text \<open>
  The loop that ends three of the constructors:
  \<^verbatim>\<open>for part in parts: new_shape = rebuild.new_shape(part.shape); part.set_shape(new_shape)\<close>.
\<close>

fun rebuild_parts :: "(shape \<Rightarrow> shape) \<Rightarrow> part list \<Rightarrow> world \<Rightarrow> world" where
  "rebuild_parts new_shape [] w = w"
| "rebuild_parts new_shape (part # parts) w =
     rebuild_parts new_shape parts (set_shape part (new_shape (shape_of w part)) w)"

subsection \<open>FuseSurfaceParts\<close>


subsection \<open>FuseSurfacePartsByCref\<close>

fun check_surface_parts :: "entities \<Rightarrow> part list \<Rightarrow> error option" where
  "check_surface_parts E [] = None"
| "check_surface_parts E (part # parts) =
     (if \<not> SurfacePart E part then Some (TypeError ''Part is not a surface part.'')
      else check_surface_parts E parts)"

text \<open>The tolerance of one pair, lines 108 to 113; \<open>store main\<close> is \<^verbatim>\<open>main.shape\<close>.\<close>

definition pair_tol :: "kernel \<Rightarrow> real option \<Rightarrow> (part \<Rightarrow> shape) \<Rightarrow> part \<Rightarrow> part \<Rightarrow> real" where
  "pair_tol K tol store main other =
     (case tol of
        None \<Rightarrow>
          (let tol1 = global_tolerance K (store main) 1;
               tol2 = global_tolerance K (store other) 1
           in max tol1 tol2)
      | Some t \<Rightarrow> t)"

text \<open>
  The inner loop \<^verbatim>\<open>for j in range(i + 1, nparts)\<close>, over the list of the indices \<open>j\<close>;
  every index it is given is below \<open>length parts\<close>.
\<close>

fun inner_loop ::
  "kernel \<Rightarrow> entities \<Rightarrow> real option \<Rightarrow> part list \<Rightarrow> part \<Rightarrow> nat list
     \<Rightarrow> part list \<times> world \<Rightarrow> part list \<times> world" where
  "inner_loop K E tol parts main [] (other_parts, w) = (other_parts, w)"
| "inner_loop K E tol parts main (j # js) (other_parts, w) =
     (let other = parts ! j in
      if \<not> has_cref E main \<or> \<not> has_cref E other
      then inner_loop K E tol parts main js (other_parts, w)
      else
        let tol' = pair_tol K tol (shape_of w) main other;
            e1 = EdgeByCurve K (cref E main);
            e2 = EdgeByCurve K (cref E other);
            vertices = IntersectShapes K e1 e2 tol';
            w' = emit (CallIntersectShapes e1 e2 tol') w
        in if vertices = [] then inner_loop K E tol parts main js (other_parts, w')
           else inner_loop K E tol parts main js (other_parts @ [other], w'))"

text \<open>
  The outer loop \<^verbatim>\<open>for i in range(0, nparts - 1)\<close>, over the list of the indices \<open>i\<close>.
\<close>

fun outer_loop ::
  "kernel \<Rightarrow> entities \<Rightarrow> real option \<Rightarrow> part list \<Rightarrow> nat list
     \<Rightarrow> part list \<times> part list list \<times> world \<Rightarrow> part list \<times> part list list \<times> world" where
  "outer_loop K E tol parts [] (main_parts, join_parts, w) = (main_parts, join_parts, w)"
| "outer_loop K E tol parts (i # is) (main_parts, join_parts, w) =
     (let main = parts ! i;
          (other_parts, w') = inner_loop K E tol parts main [i + 1 ..< length parts] ([], w)
      in if other_parts \<noteq> []
         then outer_loop K E tol parts is (main_parts @ [main], join_parts @ [other_parts], w')
         else outer_loop K E tol parts is (main_parts, join_parts, w'))"

text \<open>
  Lines 98 to 123. \<^verbatim>\<open>range(0, nparts - 1)\<close> is empty for \<open>nparts = 0\<close>, as \<open>[0 ..< 0 - 1]\<close>
  is over the naturals.
\<close>

definition discover ::
  "kernel \<Rightarrow> entities \<Rightarrow> real option \<Rightarrow> part list \<Rightarrow> world
     \<Rightarrow> part list \<times> part list list \<times> world" where
  "discover K E tol parts w =
     (let nparts = length parts
      in outer_loop K E tol parts [0 ..< nparts - 1] ([], [], w))"

text \<open>
  The loop \<^verbatim>\<open>for main, other_parts in zip(main_parts, join_parts)\<close>, which calls
  \<^verbatim>\<open>main.fuse(*other_parts)\<close> and sets \<^verbatim>\<open>_is_done\<close> (the flag \<open>fused\<close>).
\<close>

fun join_loop :: "entities \<Rightarrow> (part \<times> part list) list \<Rightarrow> bool \<times> world \<Rightarrow> bool \<times> world" where
  "join_loop E [] (fused, w) = (fused, w)"
| "join_loop E ((main, other_parts) # groups) (fused, w) =
     join_loop E groups
       (True, emit (CallPartFuse main other_parts)
                (w\<lparr>shape_of := part_fuse E main other_parts (shape_of w)\<rparr>))"

text \<open>The constructor; the boolean it returns is the \<^verbatim>\<open>is_done\<close> property.\<close>

definition FuseSurfacePartsByCref ::
  "kernel \<Rightarrow> entities \<Rightarrow> part list \<Rightarrow> real option \<Rightarrow> world \<Rightarrow> (error + bool) \<times> world" where
  "FuseSurfacePartsByCref K E parts tol w =
     (case check_surface_parts E parts of
        Some e \<Rightarrow> (Inl e, w)
      | None \<Rightarrow>
          (let (main_parts, join_parts, w1) = discover K E tol parts w;
               (fused, w2) = join_loop E (zip main_parts join_parts) (False, w1)
           in (Inr fused, w2)))"

subsection \<open>CutParts\<close>

text \<open>The loop of lines 156 to 158; \<open>status\<close> is the dictionary \<^verbatim>\<open>_status\<close>.\<close>

fun cut_loop ::
  "entities \<Rightarrow> shape \<Rightarrow> part list \<Rightarrow> (part \<rightharpoonup> bool) \<times> world \<Rightarrow> (part \<rightharpoonup> bool) \<times> world" where
  "cut_loop E shape2 [] (status, w) = (status, w)"
| "cut_loop E shape2 (part # parts) (status, w) =
     (let (st, store) = part_cut E part shape2 (shape_of w);
          w' = emit (CallPartCut part shape2) (w\<lparr>shape_of := store\<rparr>)
      in cut_loop E shape2 parts (status(part \<mapsto> st), w'))"

definition CutParts ::
  "kernel \<Rightarrow> entities \<Rightarrow> part list \<Rightarrow> shape \<Rightarrow> world \<Rightarrow> (part \<rightharpoonup> bool) \<times> world" where
  "CutParts K E parts cutter w =
     (let shape2 = to_shape K cutter
      in cut_loop E shape2 parts (Map.empty, w))"

text \<open>\<^verbatim>\<open>was_cut\<close> reads the dictionary: a missing key raises \<^verbatim>\<open>KeyError\<close>.\<close>

definition was_cut :: "(part \<rightharpoonup> bool) \<Rightarrow> part \<Rightarrow> error + bool" where
  "was_cut status part = (case status part of None \<Rightarrow> Inl KeyError | Some st \<Rightarrow> Inr st)"

subsection \<open>SewSurfaceParts\<close>

text \<open>
  \<^verbatim>\<open>numpy.mean\<close>: on the empty list numpy answers nan (with a warning, no exception);
  the reals have no nan, and the value here is 0.
\<close>

definition mean :: "real list \<Rightarrow> real" where
  "mean xs = sum_list xs / real (length xs)"

text \<open>Python's \<^verbatim>\<open>max\<close> of a list raises \<^verbatim>\<open>ValueError\<close> on the empty list.\<close>

fun max_list :: "real list \<Rightarrow> error + real" where
  "max_list [] = Inl (ValueError ''max() arg is an empty sequence'')"
| "max_list (x # xs) = Inr (fold max xs x)"

text \<open>The loop of lines 214 to 218.\<close>

fun sew_loop :: "sew_tool \<Rightarrow> part list \<Rightarrow> world \<Rightarrow> world" where
  "sew_loop sew [] w = w"
| "sew_loop sew (part # parts) w =
     (if \<not> is_modified sew (shape_of w part) then sew_loop sew parts w
      else
        let mod_shape = modified sew (shape_of w part)
        in sew_loop sew parts (set_shape part mod_shape w))"

text \<open>The two tolerances of lines 199 to 205.\<close>

definition sew_tol :: "kernel \<Rightarrow> shape list \<Rightarrow> real option \<Rightarrow> real" where
  "sew_tol K shapes tol =
     (case tol of
        None \<Rightarrow> mean (map (\<lambda>shape. global_tolerance K shape 0) shapes)
      | Some t \<Rightarrow> t)"

definition sew_max_tol :: "kernel \<Rightarrow> shape list \<Rightarrow> real option \<Rightarrow> error + real" where
  "sew_max_tol K shapes max_tol =
     (case max_tol of
        None \<Rightarrow> max_list (map (\<lambda>shape. global_tolerance K shape 1) shapes)
      | Some t \<Rightarrow> Inr t)"

definition SewSurfaceParts ::
  "kernel \<Rightarrow> part list \<Rightarrow> real option \<Rightarrow> real option \<Rightarrow> world \<Rightarrow> (error + unit) \<times> world" where
  "SewSurfaceParts K parts tol max_tol w =
     (let shapes = map (shape_of w) parts;
          tol' = sew_tol K shapes tol
      in case sew_max_tol K shapes max_tol of
           Inl e \<Rightarrow> (Inl e, w)
         | Inr max_tol' \<Rightarrow>
             (let sew = SewShape K tol' max_tol' shapes;
                  w1 = emit (CallSewShape tol' max_tol' shapes) w
              in (Inr (), sew_loop sew parts w1)))"

subsection \<open>SplitParts\<close>


subsection \<open>FuseAssemblies\<close>

text \<open>The loop \<^verbatim>\<open>for assy in assys[1:]\<close>, which gathers \<^verbatim>\<open>tools\<close> and \<^verbatim>\<open>other_parts\<close>.\<close>

fun gather_tools ::
  "kernel \<Rightarrow> entities \<Rightarrow> bool \<Rightarrow> world \<Rightarrow> assy list \<Rightarrow> shape list \<times> part list
     \<Rightarrow> shape list \<times> part list" where
  "gather_tools K E include_subassy w [] (tools, other_parts) = (tools, other_parts)"
| "gather_tools K E include_subassy w (assy # assys) (tools, other_parts) =
     (let parts = get_parts E assy include_subassy;
          shapes = map (shape_of w) parts;
          shape = CompoundByShapes K shapes
      in gather_tools K E include_subassy w assys (tools @ [shape], other_parts @ parts))"

definition FuseAssemblies ::
  "kernel \<Rightarrow> entities \<Rightarrow> assy list \<Rightarrow> real option \<Rightarrow> bool \<Rightarrow> world \<Rightarrow> (error + bop) \<times> world"
where
  "FuseAssemblies K E assys fuzzy_val include_subassy w =
     (if length assys < 2
      then (Inl (ValueError ''Not enough assemblies to fuse. Need at least two.''), w)
      else
        let parts1 = get_parts E (hd assys) include_subassy;
            shapes1 = map (shape_of w) parts1;
            shape1 = CompoundByShapes K shapes1;
            (tools, other_parts) = gather_tools K E include_subassy w (tl assys) ([], []);
            bop = FuseShapes K fuzzy_val [shape1] tools;
            w1 = emit (CallFuseShapes fuzzy_val [shape1] tools) w;
            all_parts = parts1 @ other_parts;
            all_shapes = map (shape_of w1) all_parts;
            rebuild = RebuildShapesByTool K all_shapes bop;
            w2 = emit (CallRebuildShapesByTool all_shapes) w1;
            w3 = rebuild_parts rebuild all_parts w2
        in (Inr bop, w3))"

section \<open>Adjacency discovery in the words of the specification\<close>

text \<open>
  The description the loops of \<open>FuseSurfacePartsByCref\<close> are compared with. A pair
  \<open>(main, other)\<close> is adjacent when both parts have a reference curve and the
  intersection of the edges of the two curves, at the tolerance of the pair, has at least
  one vertex.
\<close>

definition adjacent ::
  "kernel \<Rightarrow> entities \<Rightarrow> real option \<Rightarrow> (part \<Rightarrow> shape) \<Rightarrow> part \<Rightarrow> part \<Rightarrow> bool" where
  "adjacent K E tol store main other \<longleftrightarrow>
     has_cref E main \<and> has_cref E other
     \<and> IntersectShapes K (EdgeByCurve K (cref E main)) (EdgeByCurve K (cref E other))
          (pair_tol K tol store main other) \<noteq> []"

text \<open>The candidates of the part at index \<open>i\<close>: the adjacent parts at the indices after it.\<close>

definition candidates ::
  "kernel \<Rightarrow> entities \<Rightarrow> real option \<Rightarrow> (part \<Rightarrow> shape) \<Rightarrow> part list \<Rightarrow> nat \<Rightarrow> part list" where
  "candidates K E tol store parts i =
     map (\<lambda>j. parts ! j)
       (filter (\<lambda>j. adjacent K E tol store (parts ! i) (parts ! j)) [i + 1 ..< length parts])"

text \<open>The join groups: every main part that has a candidate, with its candidates.\<close>

definition join_groups ::
  "kernel \<Rightarrow> entities \<Rightarrow> real option \<Rightarrow> (part \<Rightarrow> shape) \<Rightarrow> part list \<Rightarrow> (part \<times> part list) list"
where
  "join_groups K E tol store parts =
     map (\<lambda>i. (parts ! i, candidates K E tol store parts i))
       (filter (\<lambda>i. candidates K E tol store parts i \<noteq> []) [0 ..< length parts - 1])"

text \<open>
  The pairs that are tested: outer index below inner index, both parts with a reference
  curve; and the intersection that is run on a pair.
\<close>

definition tested_pairs :: "entities \<Rightarrow> part list \<Rightarrow> (part \<times> part) list" where
  "tested_pairs E parts =
     concat (map (\<lambda>i. map (\<lambda>j. (parts ! i, parts ! j))
                        (filter (\<lambda>j. has_cref E (parts ! i) \<and> has_cref E (parts ! j))
                           [i + 1 ..< length parts]))
               [0 ..< length parts - 1])"

definition pair_event ::
  "kernel \<Rightarrow> entities \<Rightarrow> real option \<Rightarrow> (part \<Rightarrow> shape) \<Rightarrow> part \<times> part \<Rightarrow> event" where
  "pair_event K E tol store pair =
     CallIntersectShapes (EdgeByCurve K (cref E (fst pair))) (EdgeByCurve K (cref E (snd pair)))
       (case tol of
          None \<Rightarrow> max (global_tolerance K (store (fst pair)) 1)
                    (global_tolerance K (store (snd pair)) 1)
        | Some t \<Rightarrow> t)"

definition fuse_event :: "part \<times> part list \<Rightarrow> event" where
  "fuse_event g = CallPartFuse (fst g) (snd g)"

section \<open>The cuts of a part group, one after the other\<close>

text \<open>
  The shape store after the parts of a list were cut with \<open>shape2\<close>, in order, each cut
  acting on the store the cuts before it left.
\<close>

definition store_after_cuts ::
  "entities \<Rightarrow> shape \<Rightarrow> part list \<Rightarrow> (part \<Rightarrow> shape) \<Rightarrow> (part \<Rightarrow> shape)" where
  "store_after_cuts E shape2 parts store =
     fold (\<lambda>part st. snd (part_cut E part shape2 st)) parts store"

section \<open>Concrete inputs\<close>

text \<open>A curve/curve solver that is done with three solutions, at squared distances 4, 0, 1.\<close>

definition demo_tool :: "(nat, nat) extrema_tool" where
  "demo_tool = \<lparr> IsDone = True, NbExt = 3,
                 SquareDistance = (\<lambda>i. if i = 1 then 4 else if i = 2 then 0 else 1),
                 Ext1 = nat, Ext2 = (\<lambda>i. nat i + 10), IsParallel = False \<rparr>"

text \<open>A solver that is done and has found no solution, and one that is not done.\<close>

definition empty_tool :: "(nat, nat) extrema_tool" where
  "empty_tool = \<lparr> IsDone = True, NbExt = 0, SquareDistance = (\<lambda>i. 0),
                  Ext1 = nat, Ext2 = nat, IsParallel = False \<rparr>"

definition failed_tool :: "(nat, nat) extrema_tool" where
  "failed_tool = \<lparr> IsDone = False, NbExt = 0, SquareDistance = (\<lambda>i. 0),
                   Ext1 = nat, Ext2 = nat, IsParallel = False \<rparr>"

text \<open>
  A kernel whose Boolean tools report not done while the rebuild answers a new shape
  (the old one plus 1000); only the edges of curves 10 and 11 intersect, in that order;
  sewing modifies the shapes with an even identity. The tolerance of a shape is its
  identity.
\<close>

definition demo_kernel :: kernel where
  "demo_kernel =
     \<lparr> global_tolerance = (\<lambda>shape mode. real shape),
       EdgeByCurve = (\<lambda>c. c + 100),
       IntersectShapes = (\<lambda>e1 e2 t. if e1 = 110 \<and> e2 = 111 then [500] else []),
       FuseShapes = (\<lambda>fuzzy_val args tools. \<lparr> is_done = False, result_shape = 0 \<rparr>),
       SplitShapes = (\<lambda>fuzzy_val args tools. \<lparr> is_done = False, result_shape = 0 \<rparr>),
       RebuildShapesByTool = (\<lambda>old_shapes b shape. shape + 1000),
       CompoundByShapes = sum_list,
       SewShape = (\<lambda>t mt shapes. \<lparr> is_modified = even, modified = (\<lambda>shape. shape + 1) \<rparr>),
       to_shape = (\<lambda>shape. shape) \<rparr>"

text \<open>
  Parts 0, 1, 2 (A, B, C) are surface parts with reference curves 10, 11, 12; the cut
  of part 1 fails, and so does the cut of a part whose shape was cut before; assembly \<open>a\<close> holds the parts \<open>2 * a\<close> and \<open>2 * a + 1\<close>.
\<close>

definition demo_entities :: entities where
  "demo_entities =
     \<lparr> SurfacePart = (\<lambda>p. True),
       has_cref = (\<lambda>p. True),
       cref = (\<lambda>p. p + 10),
       part_fuse = (\<lambda>main others store. store(main := store main + 7000)),
       part_cut = (\<lambda>p shape2 store.
                     (p \<noteq> 1 \<and> store p < 3000,
                      if p \<noteq> 1 \<and> store p < 3000 then store(p := store p + 3000) else store)),
       get_parts = (\<lambda>a include_subassy. [2 * a, 2 * a + 1]) \<rparr>"

text \<open>Part \<open>p\<close> has shape \<open>p + 20\<close>, and nothing has run yet.\<close>

definition demo_world :: world where
  "demo_world = \<lparr> shape_of = (\<lambda>p. p + 20), trace = [] \<rparr>"

section \<open>The extrema reports\<close>

lemma collect_results_length:
  "collect_results tool is acc = Inr rs \<Longrightarrow> length rs = length acc + length is"
  by (induction "is" arbitrary: acc) (auto split: if_splits)

lemma collect_results_total:
  "\<forall>i\<in>set is. 0 \<le> SquareDistance tool i \<Longrightarrow> \<exists>rs. collect_results tool is acc = Inr rs"
  by (induction "is" arbitrary: acc) auto

lemma build_report_props:
  assumes "build_report par tool = Inr r"
  shows "distances r \<noteq> [] \<and> sorted (distances r) \<and> dmin r = hd (distances r)
         \<and> dmax r = last (distances r) \<and> int (length (distances r)) = NbExt tool"
proof -
  from assms obtain rs where rs: "collect_results tool [1 .. NbExt tool] [] = Inr rs"
    and ne: "sort_key fst rs \<noteq> []"
    and r: "r = \<lparr> nsol = NbExt tool, is_parallel = par,
                 dmin = fst (hd (sort_key fst rs)), dmax = fst (last (sort_key fst rs)),
                 distances = map fst (sort_key fst rs),
                 rows1 = map (\<lambda>row. fst (snd row)) (sort_key fst rs),
                 rows2 = map (\<lambda>row. snd (snd row)) (sort_key fst rs) \<rparr>"
    by (auto simp: build_report_def Let_def split: sum.splits if_splits)
  have len: "length rs = length [1 .. NbExt tool]"
    using collect_results_length [OF rs] by simp
  from ne have "rs \<noteq> []" by auto
  with len have "1 \<le> NbExt tool" by (cases "1 \<le> NbExt tool") auto
  with len have "int (length rs) = NbExt tool" by simp
  with r ne show ?thesis by (simp add: hd_map last_map)
qed

lemma build_report_total:
  assumes "1 \<le> NbExt tool" "\<forall>i\<in>{1 .. NbExt tool}. 0 \<le> SquareDistance tool i"
  shows "\<exists>r. build_report par tool = Inr r"
proof -
  from assms(2) obtain rs where rs: "collect_results tool [1 .. NbExt tool] [] = Inr rs"
    using collect_results_total [of "[1 .. NbExt tool]" tool "[]"] by auto
  have "length rs = length [1 .. NbExt tool]"
    using collect_results_length [OF rs] by simp
  with assms(1) have "rs \<noteq> []" by auto
  then have "length (sort_key fst rs) \<noteq> 0" by simp
  then have "sort_key fst rs \<noteq> []" by (simp del: length_sort)
  with rs show ?thesis by (simp add: build_report_def Let_def)
qed

lemma extrema_call_done:
  "IsDone tool \<Longrightarrow> \<exists>par. extrema_call k tool = build_report par tool"
  by (cases k)
     (auto simp: DistancePointToCurve_def DistancePointToSurface_def DistanceCurveToCurve_def
        DistanceCurveToSurface_def DistanceSurfaceToSurface_def)

lemma demo_tool_call:
  "extrema_call CurveCurve demo_tool =
     Inr \<lparr> nsol = 3, is_parallel = Some False, dmin = 0, dmax = 2, distances = [0, 1, 2],
           rows1 = [2, 3, 1], rows2 = [12, 13, 11] \<rparr>"
  by (simp add: demo_tool_def DistanceCurveToCurve_def build_report_def upto.simps)

text \<open>
  Claim C1. When the solver is done and has at least one solution, every report an
  extrema call of any of the five kinds returns has a non-empty list of distances,
  sorted ascending, as long as the number of solutions, with \<open>dmin\<close> its first and
  \<open>dmax\<close> its last element; and the call does return a report when the squared
  distances of the solver are not negative.
\<close>

theorem extrema_report_sorted:
  assumes "IsDone tool" and "1 \<le> NbExt tool"
  shows "(\<forall>r. extrema_call k tool = Inr r \<longrightarrow>
            distances r \<noteq> [] \<and> sorted (distances r)
            \<and> dmin r = hd (distances r) \<and> dmax r = last (distances r)
            \<and> int (length (distances r)) = NbExt tool)
       \<and> ((\<forall>i\<in>{1 .. NbExt tool}. 0 \<le> SquareDistance tool i) \<longrightarrow>
            (\<exists>r. extrema_call k tool = Inr r))"
proof -
  from assms(1) obtain par where "extrema_call k tool = build_report par tool"
    using extrema_call_done by blast
  then show ?thesis
    using build_report_props [of par tool] build_report_total [OF assms(2), of par] by auto
qed

theorem extrema_report_sorted_witness:
  "IsDone demo_tool \<and> 1 \<le> NbExt demo_tool
   \<and> 0 \<le> SquareDistance demo_tool 1 \<and> 0 \<le> SquareDistance demo_tool 2
   \<and> 0 \<le> SquareDistance demo_tool 3
   \<and> (\<exists>r. extrema_call CurveCurve demo_tool = Inr r \<and> distances r = [0, 1, 2]
          \<and> sorted (distances r) \<and> dmin r = hd (distances r) \<and> dmax r = last (distances r))"
proof -
  have h1: "IsDone demo_tool" and h2: "1 \<le> NbExt demo_tool"
    by (simp_all add: demo_tool_def)
  have h3: "\<forall>i\<in>{1 .. NbExt demo_tool}. 0 \<le> SquareDistance demo_tool i"
    by (simp add: demo_tool_def)
  from extrema_report_sorted [OF h1 h2, of CurveCurve] h3
  obtain r where r: "extrema_call CurveCurve demo_tool = Inr r"
    and p: "sorted (distances r) \<and> dmin r = hd (distances r) \<and> dmax r = last (distances r)"
    by blast
  from r demo_tool_call have "distances r = [0, 1, 2]" by simp
  moreover have "0 \<le> SquareDistance demo_tool 1 \<and> 0 \<le> SquareDistance demo_tool 2
      \<and> 0 \<le> SquareDistance demo_tool 3"
    by (simp add: demo_tool_def)
  ultimately show ?thesis using h1 h2 r p by blast
qed

text \<open>
  Claim C4, as the code has it. When the solver is done and reports no solution, an
  extrema call of any of the five kinds fails, and produces no report; the failure is the
  \<^verbatim>\<open>IndexError\<close> of reading the first row of the empty result list, which is not the
  failure the same call gives for a solver that is not done.
\<close>

theorem zero_solutions_index_error:
  assumes "IsDone tool" and "NbExt tool \<le> 0"
  shows "extrema_call k tool = Inl (IndexError ''list index out of range'')
       \<and> extrema_call k tool \<noteq> extrema_call k (tool\<lparr>IsDone := False\<rparr>)"
  using assms
  by (cases k)
     (simp_all add: DistancePointToCurve_def DistancePointToSurface_def DistanceCurveToCurve_def
        DistanceCurveToSurface_def DistanceSurfaceToSurface_def build_report_def)

theorem zero_solutions_index_error_witness:
  "IsDone empty_tool \<and> NbExt empty_tool \<le> 0
   \<and> extrema_call PointCurve empty_tool = Inl (IndexError ''list index out of range'')"
  using zero_solutions_index_error [of empty_tool PointCurve]
  by (simp add: empty_tool_def)

text \<open>
  Claim C4, as stated, fails: a point/curve call on a solver that is done with zero
  solutions does not fail as the call on the solver that is not done does.
\<close>

theorem zero_solutions_counterexample:
  "IsDone empty_tool \<and> NbExt empty_tool = 0 \<and> \<not> IsDone failed_tool
   \<and> extrema_call PointCurve failed_tool
       = Inl (RuntimeError ''Extrema between point and curve failed.'')
   \<and> extrema_call PointCurve empty_tool \<noteq> extrema_call PointCurve failed_tool"
  by (simp add: empty_tool_def failed_tool_def DistancePointToCurve_def build_report_def)

text \<open>
  Claim C5, at the input where the code departs from it. A surface/surface call on a
  solver that is not done fails with the message of the curve/surface call: the message
  names curve and surface, not the two surfaces of the call.
\<close>

theorem surface_surface_message:
  "extrema_call SurfaceSurface failed_tool
     = Inl (RuntimeError ''Extrema between curve and surface failed.'')
   \<and> extrema_call SurfaceSurface failed_tool = extrema_call CurveSurface failed_tool"
  by (simp add: failed_tool_def DistanceSurfaceToSurface_def DistanceCurveToSurface_def)

section \<open>The part synchronisation operations\<close>

lemma shape_of_emit [simp]: "shape_of (emit e w) = shape_of w"
  by (simp add: emit_def)

lemma trace_emit [simp]: "trace (emit e w) = trace w @ [e]"
  by (simp add: emit_def)

lemma shape_of_set_shape [simp]: "shape_of (set_shape p s w) = (shape_of w)(p := s)"
  by (simp add: set_shape_def)

lemma trace_set_shape [simp]: "trace (set_shape p s w) = trace w"
  by (simp add: set_shape_def)

text \<open>
  Claim C9. A fuse-assemblies call given fewer than two assemblies raises the
  \<^verbatim>\<open>ValueError\<close> and leaves the world as it was: no shape is rewritten and the trace
  gains no event, so no Boolean tool, compound or rebuild was run.
\<close>

theorem fuse_assemblies_too_few:
  "length assys < 2 \<Longrightarrow>
   FuseAssemblies K E assys fuzzy_val include_subassy w
     = (Inl (ValueError ''Not enough assemblies to fuse. Need at least two.''), w)"
  by (simp add: FuseAssemblies_def)

theorem fuse_assemblies_too_few_witness:
  "length [4::nat] < 2
   \<and> FuseAssemblies demo_kernel demo_entities [4] None True demo_world
       = (Inl (ValueError ''Not enough assemblies to fuse. Need at least two.''), demo_world)
   \<and> trace (snd (FuseAssemblies demo_kernel demo_entities [4] None True demo_world)) = []
   \<and> shape_of (snd (FuseAssemblies demo_kernel demo_entities [4] None True demo_world)) 8 = 28"
  using fuse_assemblies_too_few [of "[4]" demo_kernel demo_entities None True demo_world]
  by (simp add: demo_world_def)

lemma check_surface_parts_ok:
  "\<forall>p\<in>set parts. SurfacePart E p \<Longrightarrow> check_surface_parts E parts = None"
  by (induction parts) auto

text \<open>
  Claim C10. A fuse-by-reference-curve call on fewer than two parts, each a surface
  part, raises nothing, reports \<open>is_done = False\<close> and leaves the world as it was: no
  pair is intersected, no fuse is called and no shape is rewritten.
\<close>

theorem cref_fuse_fewer_than_two:
  assumes "length parts < 2" and "\<forall>p\<in>set parts. SurfacePart E p"
  shows "FuseSurfacePartsByCref K E parts tol w = (Inr False, w)"
proof -
  from assms(1) have "[0 ..< length parts - 1] = []" by simp
  then have "discover K E tol parts w = ([], [], w)"
    by (simp add: discover_def)
  with check_surface_parts_ok [OF assms(2)] show ?thesis
    by (simp add: FuseSurfacePartsByCref_def)
qed

theorem cref_fuse_fewer_than_two_witness:
  "length [1::nat] < 2 \<and> SurfacePart demo_entities 1
   \<and> FuseSurfacePartsByCref demo_kernel demo_entities [1] None demo_world = (Inr False, demo_world)
   \<and> trace (snd (FuseSurfacePartsByCref demo_kernel demo_entities [1] None demo_world)) = []"
  using cref_fuse_fewer_than_two [of "[1]" demo_entities demo_kernel None demo_world]
  by (simp add: demo_entities_def demo_world_def)

lemma cut_loop_dom:
  "cut_loop E s parts (status, w) = (status', w') \<Longrightarrow> dom status' = dom status \<union> set parts"
  by (induction parts arbitrary: status w) (auto split: prod.splits simp: Let_def)

lemma cut_loop_trace:
  "cut_loop E s parts (status, w) = (status', w') \<Longrightarrow>
   trace w' = trace w @ map (\<lambda>p. CallPartCut p s) parts"
  by (induction parts arbitrary: status w) (auto split: prod.splits simp: Let_def)

lemma cut_loop_store:
  "cut_loop E s parts (status, w) = (status', w') \<Longrightarrow>
   shape_of w' = store_after_cuts E s parts (shape_of w)"
  by (induction parts arbitrary: status w)
     (auto split: prod.splits simp: Let_def store_after_cuts_def)

lemma cut_loop_keep:
  "cut_loop E s parts (status, w) = (status', w') \<Longrightarrow> p \<notin> set parts \<Longrightarrow> status' p = status p"
  by (induction parts arbitrary: status w) (auto split: prod.splits simp: Let_def)

lemma cut_loop_status:
  "cut_loop E s parts (status, w) = (status', w') \<Longrightarrow>
   k < length parts \<Longrightarrow> parts ! k \<notin> set (drop (Suc k) parts) \<Longrightarrow>
   status' (parts ! k)
     = Some (fst (part_cut E (parts ! k) s (store_after_cuts E s (take k parts) (shape_of w))))"
proof (induction parts arbitrary: status w k)
  case Nil
  then show ?case by simp
next
  case (Cons q parts)
  obtain st store where pc: "part_cut E q s (shape_of w) = (st, store)"
    by (cases "part_cut E q s (shape_of w)")
  let ?w1 = "emit (CallPartCut q s) (w\<lparr>shape_of := store\<rparr>)"
  from pc Cons.prems(1)
  have run: "cut_loop E s parts (status(q \<mapsto> st), ?w1) = (status', w')"
    by (simp add: Let_def)
  have sh: "shape_of ?w1 = store" by simp
  show ?case
  proof (cases k)
    case 0
    with Cons.prems(3) have "q \<notin> set parts" by simp
    from cut_loop_keep [OF run this] have "status' q = Some st" by simp
    with 0 pc show ?thesis by (simp add: store_after_cuts_def)
  next
    case (Suc k')
    with Cons.prems(2) have k': "k' < length parts" by simp
    from Suc Cons.prems(3) have last: "parts ! k' \<notin> set (drop (Suc k') parts)" by simp
    from Cons.IH [OF run k' last] sh
    have "status' (parts ! k')
            = Some (fst (part_cut E (parts ! k') s (store_after_cuts E s (take k' parts) store)))"
      by simp
    with Suc pc show ?thesis by (simp add: store_after_cuts_def)
  qed
qed

text \<open>
  Claim C3. A cut-parts call cuts every part of the input, in order, each on the shape
  store the cuts before it left, whatever those cuts returned: the store it leaves is
  the store after all the cuts, and the trace gains one cut per part. The outcome mapping
  has exactly the parts of the input as keys. \<open>was_cut\<close> of a part of the input is the
  boolean its cut returned on the store the call had reached (the cut at the last index
  of the part, when the part is listed more than once), be it true or false;
  \<open>was_cut\<close> of a part outside the input is a \<^verbatim>\<open>KeyError\<close>.
\<close>

theorem cut_parts_outcomes:
  assumes "CutParts K E parts cutter w = (status, w')"
  shows "dom status = set parts
       \<and> (\<forall>k. k < length parts \<and> parts ! k \<notin> set (drop (Suc k) parts) \<longrightarrow>
              was_cut status (parts ! k)
                = Inr (fst (part_cut E (parts ! k) (to_shape K cutter)
                         (store_after_cuts E (to_shape K cutter) (take k parts) (shape_of w)))))
       \<and> (\<forall>p. p \<notin> set parts \<longrightarrow> was_cut status p = Inl KeyError)
       \<and> shape_of w' = store_after_cuts E (to_shape K cutter) parts (shape_of w)
       \<and> trace w' = trace w @ map (\<lambda>p. CallPartCut p (to_shape K cutter)) parts"
proof -
  from assms have run: "cut_loop E (to_shape K cutter) parts (Map.empty, w) = (status, w')"
    by (simp add: CutParts_def)
  have d: "dom status = set parts"
    using cut_loop_dom [OF run] by simp
  have v: "was_cut status (parts ! k)
             = Inr (fst (part_cut E (parts ! k) (to_shape K cutter)
                      (store_after_cuts E (to_shape K cutter) (take k parts) (shape_of w))))"
    if "k < length parts" and "parts ! k \<notin> set (drop (Suc k) parts)" for k
    using cut_loop_status [OF run that] by (simp add: was_cut_def)
  have n: "was_cut status p = Inl KeyError" if "p \<notin> set parts" for p
  proof -
    from that d have "status p = None" by blast
    then show ?thesis by (simp add: was_cut_def)
  qed
  from d v n cut_loop_store [OF run] cut_loop_trace [OF run] show ?thesis by blast
qed

text \<open>
  Parts 0, 1, 0, 2 are cut with shape 77. The first cut of part 0 succeeds; the cut of
  part 1 fails and the loop goes on; the second cut of part 0 runs on the store the first
  one left and fails, and that is what is recorded for part 0, although a cut of part 0
  on the store the call started with succeeds; the cut of part 2 succeeds.
\<close>

lemma demo_cut_stores:
  "store_after_cuts demo_entities 77 (take 1 [0, 1, 0, 2]) (shape_of demo_world) 1 = 21"
  "store_after_cuts demo_entities 77 (take 2 [0, 1, 0, 2]) (shape_of demo_world) 0 = 3020"
  "store_after_cuts demo_entities 77 (take 3 [0, 1, 0, 2]) (shape_of demo_world) 2 = 22"
  "store_after_cuts demo_entities 77 [0, 1, 0, 2] (shape_of demo_world) 0 = 3020"
  "store_after_cuts demo_entities 77 [0, 1, 0, 2] (shape_of demo_world) 1 = 21"
  "store_after_cuts demo_entities 77 [0, 1, 0, 2] (shape_of demo_world) 2 = 3022"
  by (simp_all add: store_after_cuts_def demo_entities_def demo_world_def)

theorem cut_parts_outcomes_witness:
  "was_cut (fst (CutParts demo_kernel demo_entities [0, 1, 0, 2] 77 demo_world)) 0 = Inr False
   \<and> was_cut (fst (CutParts demo_kernel demo_entities [0, 1, 0, 2] 77 demo_world)) 1 = Inr False
   \<and> was_cut (fst (CutParts demo_kernel demo_entities [0, 1, 0, 2] 77 demo_world)) 2 = Inr True
   \<and> was_cut (fst (CutParts demo_kernel demo_entities [0, 1, 0, 2] 77 demo_world)) 3 = Inl KeyError
   \<and> fst (part_cut demo_entities 0 77 (shape_of demo_world)) = True
   \<and> dom (fst (CutParts demo_kernel demo_entities [0, 1, 0, 2] 77 demo_world)) = {0, 1, 2}
   \<and> shape_of (snd (CutParts demo_kernel demo_entities [0, 1, 0, 2] 77 demo_world)) 0 = 3020
   \<and> shape_of (snd (CutParts demo_kernel demo_entities [0, 1, 0, 2] 77 demo_world)) 1 = 21
   \<and> shape_of (snd (CutParts demo_kernel demo_entities [0, 1, 0, 2] 77 demo_world)) 2 = 3022
   \<and> trace (snd (CutParts demo_kernel demo_entities [0, 1, 0, 2] 77 demo_world))
       = [CallPartCut 0 77, CallPartCut 1 77, CallPartCut 0 77, CallPartCut 2 77]"
proof -
  obtain status w' where
    r: "CutParts demo_kernel demo_entities [0, 1, 0, 2] 77 demo_world = (status, w')"
    by (cases "CutParts demo_kernel demo_entities [0, 1, 0, 2] 77 demo_world")
  have ts: "to_shape demo_kernel 77 = 77" by (simp add: demo_kernel_def)
  note th = cut_parts_outcomes [OF r, unfolded ts]
  from th have d: "dom status = {0, 1, 2}" by auto
  from th have k3: "was_cut status 3 = Inl KeyError" by simp
  from th have st: "shape_of w' = store_after_cuts demo_entities 77 [0, 1, 0, 2] (shape_of demo_world)"
    by blast
  from th have tr: "trace w' = [CallPartCut 0 77, CallPartCut 1 77, CallPartCut 0 77, CallPartCut 2 77]"
    by (simp add: demo_world_def)
  from th have v: "\<And>k. k < length [0, 1, 0, 2::nat] \<Longrightarrow>
      [0, 1, 0, 2::nat] ! k \<notin> set (drop (Suc k) [0, 1, 0, 2]) \<Longrightarrow>
      was_cut status ([0, 1, 0, 2] ! k)
        = Inr (fst (part_cut demo_entities ([0, 1, 0, 2] ! k) 77
                 (store_after_cuts demo_entities 77 (take k [0, 1, 0, 2]) (shape_of demo_world))))"
    by blast
  from v [of 1] demo_cut_stores(1) have c1: "was_cut status 1 = Inr False"
    by (simp add: demo_entities_def)
  from v [of 2] demo_cut_stores(2) have c0: "was_cut status 0 = Inr False"
    by (simp add: demo_entities_def)
  from v [of 3] demo_cut_stores(3) have c2: "was_cut status 2 = Inr True"
    by (simp add: demo_entities_def)
  have first: "fst (part_cut demo_entities 0 77 (shape_of demo_world)) = True"
    by (simp add: demo_entities_def demo_world_def)
  from r d k3 st tr c0 c1 c2 first demo_cut_stores(4-6) show ?thesis by simp
qed

lemma sew_loop_trace: "trace (sew_loop sew parts w) = trace w"
  by (induction parts arbitrary: w) (simp_all add: Let_def)

lemma sew_loop_changed:
  "shape_of (sew_loop sew parts w) p \<noteq> shape_of w p \<Longrightarrow>
   p \<in> set parts \<and> is_modified sew (shape_of w p)"
proof (induction parts arbitrary: w)
  case Nil
  then show ?case by simp
next
  case (Cons q parts)
  show ?case
  proof (cases "is_modified sew (shape_of w q)")
    case False
    with Cons.prems have "shape_of (sew_loop sew parts w) p \<noteq> shape_of w p" by simp
    from Cons.IH [OF this] show ?thesis by simp
  next
    case True
    let ?w2 = "set_shape q (modified sew (shape_of w q)) w"
    from True Cons.prems have neq: "shape_of (sew_loop sew parts ?w2) p \<noteq> shape_of w p"
      by (simp add: Let_def)
    show ?thesis
    proof (cases "p = q")
      case True
      with \<open>is_modified sew (shape_of w q)\<close> show ?thesis by simp
    next
      case False
      then have same: "shape_of ?w2 p = shape_of w p" by simp
      with neq have "shape_of (sew_loop sew parts ?w2) p \<noteq> shape_of ?w2 p" by simp
      from Cons.IH [OF this] same show ?thesis by simp
    qed
  qed
qed

text \<open>
  Claim C8. In a sew-parts call, a part whose shape the sewing tool reports as
  unmodified keeps the very shape it had (the same reference), and a part whose shape
  was rewritten is a part of the input whose shape the tool reports as modified. A call
  that fails (no maximum tolerance given and no part) changes nothing.
\<close>

theorem sew_unmodified_untouched:
  "(\<forall>e. sew_max_tol K (map (shape_of w) parts) max_tol = Inl e \<longrightarrow>
        SewSurfaceParts K parts tol max_tol w = (Inl e, w))
   \<and> (\<forall>mt sew. sew_max_tol K (map (shape_of w) parts) max_tol = Inr mt \<longrightarrow>
         sew = SewShape K (sew_tol K (map (shape_of w) parts) tol) mt (map (shape_of w) parts) \<longrightarrow>
         (\<exists>w'. SewSurfaceParts K parts tol max_tol w = (Inr (), w')
            \<and> (\<forall>p. \<not> is_modified sew (shape_of w p) \<longrightarrow> shape_of w' p = shape_of w p)
            \<and> (\<forall>p. shape_of w' p \<noteq> shape_of w p \<longrightarrow>
                   p \<in> set parts \<and> is_modified sew (shape_of w p))))"
proof (intro conjI allI impI)
  fix e assume "sew_max_tol K (map (shape_of w) parts) max_tol = Inl e"
  then show "SewSurfaceParts K parts tol max_tol w = (Inl e, w)"
    by (simp add: SewSurfaceParts_def Let_def)
next
  fix mt sew
  assume mt: "sew_max_tol K (map (shape_of w) parts) max_tol = Inr mt"
    and sew: "sew = SewShape K (sew_tol K (map (shape_of w) parts) tol) mt (map (shape_of w) parts)"
  let ?w1 = "emit (CallSewShape (sew_tol K (map (shape_of w) parts) tol) mt (map (shape_of w) parts)) w"
  have run: "SewSurfaceParts K parts tol max_tol w = (Inr (), sew_loop sew parts ?w1)"
    using mt sew by (simp add: SewSurfaceParts_def Let_def)
  have ch: "p \<in> set parts \<and> is_modified sew (shape_of w p)"
    if "shape_of (sew_loop sew parts ?w1) p \<noteq> shape_of w p" for p
    using sew_loop_changed [of sew parts ?w1 p] that by simp
  from run ch
  show "\<exists>w'. SewSurfaceParts K parts tol max_tol w = (Inr (), w')
            \<and> (\<forall>p. \<not> is_modified sew (shape_of w p) \<longrightarrow> shape_of w' p = shape_of w p)
            \<and> (\<forall>p. shape_of w' p \<noteq> shape_of w p \<longrightarrow>
                   p \<in> set parts \<and> is_modified sew (shape_of w p))"
    by blast
qed

lemma demo_sew_max_tol:
  "sew_max_tol demo_kernel (map (shape_of demo_world) [0, 1, 2]) None = Inr 22"
  by (simp add: sew_max_tol_def demo_kernel_def demo_world_def)

theorem sew_unmodified_untouched_witness:
  "sew_max_tol demo_kernel (map (shape_of demo_world) [0, 1, 2]) None = Inr 22
   \<and> \<not> is_modified (SewShape demo_kernel
           (sew_tol demo_kernel (map (shape_of demo_world) [0, 1, 2]) None) 22
           (map (shape_of demo_world) [0, 1, 2])) (shape_of demo_world 1)
   \<and> fst (SewSurfaceParts demo_kernel [0, 1, 2] None None demo_world) = Inr ()
   \<and> shape_of (snd (SewSurfaceParts demo_kernel [0, 1, 2] None None demo_world)) 1
       = shape_of demo_world 1"
proof -
  let ?sew = "SewShape demo_kernel
           (sew_tol demo_kernel (map (shape_of demo_world) [0, 1, 2]) None) 22
           (map (shape_of demo_world) [0, 1, 2])"
  have odd: "\<not> is_modified ?sew (shape_of demo_world 1)"
    by (simp add: demo_kernel_def demo_world_def)
  from sew_unmodified_untouched [of demo_kernel demo_world "[0, 1, 2]" None None] demo_sew_max_tol
  obtain w' where "SewSurfaceParts demo_kernel [0, 1, 2] None None demo_world = (Inr (), w')"
    and "\<forall>p. \<not> is_modified ?sew (shape_of demo_world p) \<longrightarrow> shape_of w' p = shape_of demo_world p"
    by blast
  with odd demo_sew_max_tol show ?thesis by simp
qed

lemma rebuild_parts_trace: "trace (rebuild_parts f ps w) = trace w"
  by (induction ps arbitrary: w) simp_all






section \<open>Adjacency discovery\<close>

lemma inner_loop_eq:
  "inner_loop K E tol parts main js (acc, w) =
     (acc @ filter (adjacent K E tol (shape_of w) main) (map (\<lambda>j. parts ! j) js),
      w\<lparr>trace := trace w @
           map (\<lambda>other. pair_event K E tol (shape_of w) (main, other))
             (filter (\<lambda>other. has_cref E main \<and> has_cref E other) (map (\<lambda>j. parts ! j) js))\<rparr>)"
  by (induction js arbitrary: acc w)
     (auto simp: Let_def adjacent_def pair_event_def pair_tol_def emit_def split: option.splits)


lemma inner_loop_row:
  "inner_loop K E tol parts (parts ! i) [i + 1 ..< length parts] ([], w) =
     (candidates K E tol (shape_of w) parts i,
      w\<lparr>trace := trace w @
           map (pair_event K E tol (shape_of w))
             (map (\<lambda>j. (parts ! i, parts ! j))
                (filter (\<lambda>j. has_cref E (parts ! i) \<and> has_cref E (parts ! j))
                   [i + 1 ..< length parts]))\<rparr>)"
  by (simp add: inner_loop_eq candidates_def filter_map comp_def)

lemma outer_loop_eq:
  "outer_loop K E tol parts is (main_parts, join_parts, w) =
     (main_parts @ map (\<lambda>i. parts ! i)
                     (filter (\<lambda>i. candidates K E tol (shape_of w) parts i \<noteq> []) is),
      join_parts @ map (candidates K E tol (shape_of w) parts)
                     (filter (\<lambda>i. candidates K E tol (shape_of w) parts i \<noteq> []) is),
      w\<lparr>trace := trace w @
           map (pair_event K E tol (shape_of w))
             (concat (map (\<lambda>i. map (\<lambda>j. (parts ! i, parts ! j))
                                (filter (\<lambda>j. has_cref E (parts ! i) \<and> has_cref E (parts ! j))
                                   [i + 1 ..< length parts])) is))\<rparr>)"
proof (induction "is" arbitrary: main_parts join_parts w)
  case Nil
  show ?case by simp
next
  case (Cons i "is")
  let ?row = "map (pair_event K E tol (shape_of w))
                (map (\<lambda>j. (parts ! i, parts ! j))
                   (filter (\<lambda>j. has_cref E (parts ! i) \<and> has_cref E (parts ! j))
                      [i + 1 ..< length parts]))"
  let ?w' = "w\<lparr>trace := trace w @ ?row\<rparr>"
  have sh: "shape_of ?w' = shape_of w" by simp
  have tr: "trace ?w' = trace w @ ?row" by simp
  have step: "outer_loop K E tol parts (i # is) (main_parts, join_parts, w) =
      (if candidates K E tol (shape_of w) parts i \<noteq> []
       then outer_loop K E tol parts is
              (main_parts @ [parts ! i], join_parts @ [candidates K E tol (shape_of w) parts i], ?w')
       else outer_loop K E tol parts is (main_parts, join_parts, ?w'))"
    by (simp only: outer_loop.simps Let_def inner_loop_row prod.case)
  show ?case
    unfolding step Cons.IH sh tr by simp
qed

lemma discover_eq:
  "discover K E tol parts w =
     (map fst (join_groups K E tol (shape_of w) parts),
      map snd (join_groups K E tol (shape_of w) parts),
      w\<lparr>trace := trace w @ map (pair_event K E tol (shape_of w)) (tested_pairs E parts)\<rparr>)"
  by (simp add: discover_def Let_def outer_loop_eq join_groups_def tested_pairs_def comp_def)

lemma join_loop_eq:
  "\<exists>w'. join_loop E groups (fused, w) = (fused \<or> groups \<noteq> [], w')
        \<and> trace w' = trace w @ map fuse_event groups"
proof (induction groups arbitrary: fused w)
  case Nil
  then show ?case by simp
next
  case (Cons g groups)
  obtain main other_parts where g: "g = (main, other_parts)" by (cases g)
  let ?w1 = "emit (CallPartFuse main other_parts)
               (w\<lparr>shape_of := part_fuse E main other_parts (shape_of w)\<rparr>)"
  from Cons.IH [of True ?w1] obtain w' where
    "join_loop E groups (True, ?w1) = (True, w')" and "trace w' = trace ?w1 @ map fuse_event groups"
    by auto
  with g show ?case by (simp add: fuse_event_def)
qed

lemma zip_fst_snd: "zip (map fst xs) (map snd xs) = xs"
  by (induction xs) auto

lemma cref_fuse_run:
  assumes "\<forall>p\<in>set parts. SurfacePart E p"
  shows "\<exists>w'. FuseSurfacePartsByCref K E parts tol w
                = (Inr (join_groups K E tol (shape_of w) parts \<noteq> []), w')
             \<and> trace w' = trace w @ map (pair_event K E tol (shape_of w)) (tested_pairs E parts)
                            @ map fuse_event (join_groups K E tol (shape_of w) parts)"
proof -
  let ?G = "join_groups K E tol (shape_of w) parts"
  let ?w1 = "w\<lparr>trace := trace w @ map (pair_event K E tol (shape_of w)) (tested_pairs E parts)\<rparr>"
  from join_loop_eq [of E ?G False ?w1] obtain w' where
    j: "join_loop E ?G (False, ?w1) = (?G \<noteq> [], w')" and t: "trace w' = trace ?w1 @ map fuse_event ?G"
    by auto
  have "FuseSurfacePartsByCref K E parts tol w = (Inr (?G \<noteq> []), w')"
    using check_surface_parts_ok [OF assms] j
    by (simp add: FuseSurfacePartsByCref_def discover_eq zip_fst_snd)
  with t show ?thesis by simp
qed

lemma in_set_nonempty: "x \<in> set xs \<Longrightarrow> xs \<noteq> []"
  by auto

lemma join_groups_nonempty:
  "join_groups K E tol store parts \<noteq> [] \<longleftrightarrow>
     (\<exists>i j. i < j \<and> j < length parts \<and> adjacent K E tol store (parts ! i) (parts ! j))"
proof
  assume "join_groups K E tol store parts \<noteq> []"
  then obtain i where "i < length parts - 1" and "candidates K E tol store parts i \<noteq> []"
    by (auto simp: join_groups_def filter_empty_conv)
  then obtain j where "i + 1 \<le> j" "j < length parts" "adjacent K E tol store (parts ! i) (parts ! j)"
    by (auto simp: candidates_def filter_empty_conv)
  then show "\<exists>i j. i < j \<and> j < length parts \<and> adjacent K E tol store (parts ! i) (parts ! j)"
    by (intro exI [of _ i] exI [of _ j]) simp
next
  assume "\<exists>i j. i < j \<and> j < length parts \<and> adjacent K E tol store (parts ! i) (parts ! j)"
  then obtain i j where ij: "i < j" "j < length parts"
    and a: "adjacent K E tol store (parts ! i) (parts ! j)" by blast
  then have "j \<in> set (filter (\<lambda>j. adjacent K E tol store (parts ! i) (parts ! j)) [i + 1 ..< length parts])"
    by simp
  then have "filter (\<lambda>j. adjacent K E tol store (parts ! i) (parts ! j)) [i + 1 ..< length parts] \<noteq> []"
    by (rule in_set_nonempty)
  then have "candidates K E tol store parts i \<noteq> []"
    by (simp add: candidates_def)
  moreover from ij have "i \<in> set [0 ..< length parts - 1]" by simp
  ultimately have "i \<in> set (filter (\<lambda>i. candidates K E tol store parts i \<noteq> []) [0 ..< length parts - 1])"
    by simp
  then have "filter (\<lambda>i. candidates K E tol store parts i \<noteq> []) [0 ..< length parts - 1] \<noteq> []"
    by (rule in_set_nonempty)
  then show "join_groups K E tol store parts \<noteq> []"
    by (simp add: join_groups_def)
qed

lemma three_parts_groups:
  assumes "adjacent K E tol store A B"
    and "\<not> adjacent K E tol store A C" and "\<not> adjacent K E tol store B C"
  shows "join_groups K E tol store [A, B, C] = [(A, [B])]"
proof -
  have u1: "[0 ..< length [A, B, C] - 1] = [0, Suc 0]" by simp
  have u2: "[0 + 1 ..< length [A, B, C]] = [Suc 0, Suc (Suc 0)]" by simp
  have u3: "[Suc 0 + 1 ..< length [A, B, C]] = [Suc (Suc 0)]" by simp
  have c0: "candidates K E tol store [A, B, C] 0 = [B]"
    unfolding candidates_def u2 using assms by simp
  have c1: "candidates K E tol store [A, B, C] (Suc 0) = []"
    unfolding candidates_def u3 using assms by simp
  show ?thesis
    unfolding join_groups_def u1 by (simp add: c0 c1)
qed

text \<open>
  Claim C6. For a sequence of surface parts, the loops of the constructor find the join
  groups of the description above: the pairs are those with outer index below inner
  index, a pair is skipped when a part has no reference curve, the inner part is a
  candidate of the outer part exactly when the intersection of the two edges has a
  vertex, and only the main parts with a candidate are kept, each fused with all its
  candidates in one call. \<open>is_done\<close> is true exactly when there is a group, that is
  when some pair is adjacent. For three parts of which only the first two are adjacent,
  the only group is the first part with the second as its candidate.
\<close>

theorem adjacency_discovery:
  assumes "\<forall>p\<in>set parts. SurfacePart E p"
    and "G = join_groups K E tol (shape_of w) parts"
  shows "(\<exists>w1 w2. discover K E tol parts w = (map fst G, map snd G, w1)
                 \<and> FuseSurfacePartsByCref K E parts tol w = (Inr (G \<noteq> []), w2)
                 \<and> trace w2 = trace w1 @ map fuse_event G)
       \<and> (G \<noteq> [] \<longleftrightarrow>
            (\<exists>i j. i < j \<and> j < length parts
                   \<and> adjacent K E tol (shape_of w) (parts ! i) (parts ! j)))
       \<and> (\<forall>A B C. parts = [A, B, C] \<and> adjacent K E tol (shape_of w) A B
              \<and> \<not> adjacent K E tol (shape_of w) A C \<and> \<not> adjacent K E tol (shape_of w) B C
              \<longrightarrow> G = [(A, [B])])"
proof (intro conjI)
  let ?w1 = "w\<lparr>trace := trace w @ map (pair_event K E tol (shape_of w)) (tested_pairs E parts)\<rparr>"
  have d: "discover K E tol parts w = (map fst G, map snd G, ?w1)"
    by (simp add: discover_eq assms(2))
  from cref_fuse_run [OF assms(1), of K tol w] obtain w2 where
    "FuseSurfacePartsByCref K E parts tol w = (Inr (G \<noteq> []), w2)"
    and "trace w2 = trace ?w1 @ map fuse_event G"
    by (auto simp: assms(2))
  with d show "\<exists>w1 w2. discover K E tol parts w = (map fst G, map snd G, w1)
                 \<and> FuseSurfacePartsByCref K E parts tol w = (Inr (G \<noteq> []), w2)
                 \<and> trace w2 = trace w1 @ map fuse_event G"
    by blast
next
  show "G \<noteq> [] \<longleftrightarrow>
          (\<exists>i j. i < j \<and> j < length parts
                 \<and> adjacent K E tol (shape_of w) (parts ! i) (parts ! j))"
    unfolding assms(2) by (rule join_groups_nonempty)
next
  show "\<forall>A B C. parts = [A, B, C] \<and> adjacent K E tol (shape_of w) A B
              \<and> \<not> adjacent K E tol (shape_of w) A C \<and> \<not> adjacent K E tol (shape_of w) B C
              \<longrightarrow> G = [(A, [B])]"
    unfolding assms(2) using three_parts_groups by blast
qed

lemma demo_adjacent:
  "adjacent demo_kernel demo_entities tol (shape_of demo_world) 0 1"
  "\<not> adjacent demo_kernel demo_entities tol (shape_of demo_world) 0 2"
  "\<not> adjacent demo_kernel demo_entities tol (shape_of demo_world) 1 2"
  by (simp_all add: adjacent_def demo_kernel_def demo_entities_def)

theorem adjacency_discovery_witness:
  "SurfacePart demo_entities 0 \<and> SurfacePart demo_entities 1 \<and> SurfacePart demo_entities 2
   \<and> adjacent demo_kernel demo_entities None (shape_of demo_world) 0 1
   \<and> \<not> adjacent demo_kernel demo_entities None (shape_of demo_world) 0 2
   \<and> \<not> adjacent demo_kernel demo_entities None (shape_of demo_world) 1 2
   \<and> join_groups demo_kernel demo_entities None (shape_of demo_world) [0, 1, 2] = [(0, [1])]
   \<and> fst (FuseSurfacePartsByCref demo_kernel demo_entities [0, 1, 2] None demo_world) = Inr True
   \<and> fst (discover demo_kernel demo_entities None [0, 1, 2] demo_world) = [0]
   \<and> fst (snd (discover demo_kernel demo_entities None [0, 1, 2] demo_world)) = [[1]]"
proof -
  let ?G = "join_groups demo_kernel demo_entities None (shape_of demo_world) [0, 1, 2]"
  have sp: "\<forall>p\<in>set [0, 1, 2]. SurfacePart demo_entities p"
    by (simp add: demo_entities_def)
  note th = adjacency_discovery [OF sp refl, of demo_kernel None demo_world]
  from th demo_adjacent have G: "?G = [(0, [1])]" by blast
  from th obtain w1 w2 where
    "discover demo_kernel demo_entities None [0, 1, 2] demo_world = (map fst ?G, map snd ?G, w1)"
    and "FuseSurfacePartsByCref demo_kernel demo_entities [0, 1, 2] None demo_world
           = (Inr (?G \<noteq> []), w2)"
    by blast
  with G sp demo_adjacent show ?thesis by simp
qed

text \<open>
  Claim C7. The intersections a fuse-by-reference-curve call runs are those of the pairs
  tested, in order, each at the tolerance of the pair: with no tolerance given, the
  maximum of the tolerances of the two shapes, which is below neither; with a tolerance
  given, that tolerance, for every pair.
\<close>

theorem working_tolerance:
  assumes "\<forall>p\<in>set parts. SurfacePart E p"
  shows "(\<exists>r w'. FuseSurfacePartsByCref K E parts tol w = (Inr r, w')
            \<and> trace w' = trace w @ map (pair_event K E tol (shape_of w)) (tested_pairs E parts)
                           @ map fuse_event (join_groups K E tol (shape_of w) parts))
       \<and> (\<forall>main other.
             pair_event K E None (shape_of w) (main, other)
               = CallIntersectShapes (EdgeByCurve K (cref E main)) (EdgeByCurve K (cref E other))
                   (max (global_tolerance K (shape_of w main) 1)
                        (global_tolerance K (shape_of w other) 1))
             \<and> global_tolerance K (shape_of w main) 1
                 \<le> max (global_tolerance K (shape_of w main) 1)
                       (global_tolerance K (shape_of w other) 1)
             \<and> global_tolerance K (shape_of w other) 1
                 \<le> max (global_tolerance K (shape_of w main) 1)
                       (global_tolerance K (shape_of w other) 1))
       \<and> (\<forall>t main other.
             pair_event K E (Some t) (shape_of w) (main, other)
               = CallIntersectShapes (EdgeByCurve K (cref E main)) (EdgeByCurve K (cref E other)) t)"
proof (intro conjI)
  from cref_fuse_run [OF assms, of K tol w]
  show "\<exists>r w'. FuseSurfacePartsByCref K E parts tol w = (Inr r, w')
            \<and> trace w' = trace w @ map (pair_event K E tol (shape_of w)) (tested_pairs E parts)
                           @ map fuse_event (join_groups K E tol (shape_of w) parts)"
    by blast
qed (simp_all add: pair_event_def)

lemma demo_tested_pairs: "tested_pairs demo_entities [0, 1, 2] = [(0, 1), (0, 2), (1, 2)]"
  by (simp add: tested_pairs_def demo_entities_def)

lemma demo_join_groups:
  "join_groups demo_kernel demo_entities tol (shape_of demo_world) [0, 1, 2] = [(0, [1])]"
  using three_parts_groups [OF demo_adjacent] .

theorem working_tolerance_witness:
  "SurfacePart demo_entities 0 \<and> SurfacePart demo_entities 1 \<and> SurfacePart demo_entities 2
   \<and> trace (snd (FuseSurfacePartsByCref demo_kernel demo_entities [0, 1, 2] None demo_world))
       = [CallIntersectShapes 110 111 21, CallIntersectShapes 110 112 22,
          CallIntersectShapes 111 112 22, CallPartFuse 0 [1]]
   \<and> trace (snd (FuseSurfacePartsByCref demo_kernel demo_entities [0, 1, 2] (Some 5) demo_world))
       = [CallIntersectShapes 110 111 5, CallIntersectShapes 110 112 5,
          CallIntersectShapes 111 112 5, CallPartFuse 0 [1]]"
proof -
  have sp: "\<forall>p\<in>set [0, 1, 2]. SurfacePart demo_entities p"
    by (simp add: demo_entities_def)
  from working_tolerance [OF sp, of demo_kernel None demo_world]
  obtain r w' where run: 
    "FuseSurfacePartsByCref demo_kernel demo_entities [0, 1, 2] None demo_world = (Inr r, w')"
    and tr: "trace w' = trace demo_world
           @ map (pair_event demo_kernel demo_entities None (shape_of demo_world))
               (tested_pairs demo_entities [0, 1, 2])
           @ map fuse_event (join_groups demo_kernel demo_entities None (shape_of demo_world) [0, 1, 2])"
    by blast
  have "trace w' = trace demo_world
           @ map (pair_event demo_kernel demo_entities None (shape_of demo_world))
               [(0, 1), (0, 2), (1, 2)]
           @ map fuse_event [(0, [1])]"
    using tr unfolding demo_tested_pairs demo_join_groups .
  then have "trace w' = [CallIntersectShapes 110 111 21, CallIntersectShapes 110 112 22,
          CallIntersectShapes 111 112 22, CallPartFuse 0 [1]]"
    by (simp add: pair_event_def fuse_event_def demo_kernel_def demo_entities_def demo_world_def)
  with run
  have a: "trace (snd (FuseSurfacePartsByCref demo_kernel demo_entities [0, 1, 2] None demo_world))
       = [CallIntersectShapes 110 111 21, CallIntersectShapes 110 112 22,
          CallIntersectShapes 111 112 22, CallPartFuse 0 [1]]"
    by simp
  from working_tolerance [OF sp, of demo_kernel "Some 5" demo_world]
  obtain r5 w5 where run5:
    "FuseSurfacePartsByCref demo_kernel demo_entities [0, 1, 2] (Some 5) demo_world = (Inr r5, w5)"
    and tr5: "trace w5 = trace demo_world
           @ map (pair_event demo_kernel demo_entities (Some 5) (shape_of demo_world))
               (tested_pairs demo_entities [0, 1, 2])
           @ map fuse_event (join_groups demo_kernel demo_entities (Some 5) (shape_of demo_world) [0, 1, 2])"
    by blast
  have "trace w5 = trace demo_world
           @ map (pair_event demo_kernel demo_entities (Some 5) (shape_of demo_world))
               [(0, 1), (0, 2), (1, 2)]
           @ map fuse_event [(0, [1])]"
    using tr5 unfolding demo_tested_pairs demo_join_groups .
  then have "trace w5 = [CallIntersectShapes 110 111 5, CallIntersectShapes 110 112 5,
          CallIntersectShapes 111 112 5, CallPartFuse 0 [1]]"
    by (simp add: pair_event_def fuse_event_def demo_kernel_def demo_entities_def demo_world_def)
  with run5
  have b: "trace (snd (FuseSurfacePartsByCref demo_kernel demo_entities [0, 1, 2] (Some 5) demo_world))
       = [CallIntersectShapes 110 111 5, CallIntersectShapes 110 112 5,
          CallIntersectShapes 111 112 5, CallPartFuse 0 [1]]"
    by simp
  from a b sp show ?thesis by simp
qed

end
